theory Spec2Isabelle
  imports Main
begin

section \<open>Values of the program\<close>

text \<open>
  A Python \<open>str\<close> is a sequence of Unicode code points, so it is modelled as a list of
  natural numbers; \<open>bytes\<close> likewise. \<open>str\<close> turns an ASCII literal of the source
  into that representation. The Russian sentences of the source are given by their
  code points.
\<close>

type_synonym pystr = "nat list"
type_synonym bytes = "nat list"

definition str :: "string \<Rightarrow> pystr" where
  "str s = map of_char s"

text \<open>The exceptions that occur; all of them are subclasses of \<open>Exception\<close>.\<close>

datatype error =
    URLError
  | ParseError
  | KeyError pystr
  | TypeError
  | ValueError
  | OSError
  | UnicodeEncodeError

text \<open>
  The values behind the annotation \<open>Any\<close>: strings, integers, \<open>None\<close>, lists and
  dictionaries. A dictionary keeps its insertion order, so it is an association list.
\<close>

datatype pyval =
    PStr pystr
  | PInt int
  | PNone
  | PList "pyval list"
  | PDict "(pystr \<times> pyval) list"

type_synonym pydict = "(pystr \<times> pyval) list"

text \<open>\<open>d[key]\<close>: the value stored under the key, or \<open>KeyError\<close>.\<close>

definition getitem :: "pydict \<Rightarrow> pystr \<Rightarrow> error + pyval" where
  "getitem d k = (case map_of d k of None \<Rightarrow> Inl (KeyError k) | Some v \<Rightarrow> Inr v)"

subsection \<open>String operations\<close>

text \<open>
  \<open>str.isspace\<close> on one character: the code points Python treats as whitespace
  (U+0009..U+000D, U+001C..U+0020, U+0085, U+00A0, U+1680, U+2000..U+200A, U+2028,
  U+2029, U+202F, U+205F, U+3000).
\<close>

definition isspace :: "nat \<Rightarrow> bool" where
  "isspace c \<longleftrightarrow>
     (9 \<le> c \<and> c \<le> 13) \<or> (28 \<le> c \<and> c \<le> 32) \<or> c = 133 \<or> c = 160 \<or> c = 5760 \<or>
     (8192 \<le> c \<and> c \<le> 8202) \<or> c = 8232 \<or> c = 8233 \<or> c = 8239 \<or> c = 8287 \<or>
     c = 12288"

text \<open>\<open>s.strip()\<close>: drops the leading and the trailing whitespace.\<close>

definition strip :: "pystr \<Rightarrow> pystr" where
  "strip s = rev (dropWhile isspace (rev (dropWhile isspace s)))"

text \<open>
  \<open>x or d\<close> for an optional string \<open>x\<close>: \<open>None\<close> and the empty string are falsy.
\<close>

definition or_default :: "pystr option \<Rightarrow> pystr \<Rightarrow> pystr" where
  "or_default x d = (case x of None \<Rightarrow> d | Some s \<Rightarrow> if s = [] then d else s)"

text \<open>\<open>sep.join(xs)\<close> on a list of strings.\<close>

fun join :: "pystr \<Rightarrow> pystr list \<Rightarrow> pystr" where
  "join sep [] = []"
| "join sep [x] = x"
| "join sep (x # y # ys) = x @ sep @ join sep (y # ys)"

text \<open>\<open>xs[:limit]\<close>: a negative limit counts from the end of the list.\<close>

definition slice_to :: "'a list \<Rightarrow> int \<Rightarrow> 'a list" where
  "slice_to xs limit =
     (if limit < 0 then take (length xs - nat (- limit)) xs else take (nat limit) xs)"

subsection \<open>XML element trees\<close>

text \<open>
  An \<open>xml.etree.ElementTree.Element\<close>: its tag, its text (\<open>None\<close> when the element has
  no text) and its children in document order. Attributes and tails are never read by
  the program.
\<close>

datatype element = Element (tag: pystr) (el_text: "pystr option") (children: "element list")

text \<open>\<open>e.find(name)\<close>: the first child with that tag, or \<open>None\<close>.\<close>

definition find_child :: "element \<Rightarrow> pystr \<Rightarrow> element option" where
  "find_child e name = List.find (\<lambda>c. tag c = name) (children e)"

text \<open>\<open>e.findall(name)\<close>: the children with that tag, in document order.\<close>

definition findall :: "element \<Rightarrow> pystr \<Rightarrow> element list" where
  "findall e name = filter (\<lambda>c. tag c = name) (children e)"

text \<open>
  \<open>e.findtext(name)\<close>: \<open>None\<close> when no child has the tag; otherwise the text of the
  first such child, with the empty string for a child without text.
\<close>

definition findtext :: "element \<Rightarrow> pystr \<Rightarrow> pystr option" where
  "findtext e name =
     (case find_child e name of
        None \<Rightarrow> None
      | Some c \<Rightarrow> Some (case el_text c of None \<Rightarrow> [] | Some t \<Rightarrow> t))"

section \<open>The environment of a request\<close>

text \<open>
  Everything the program obtains from outside its own source file is a field of the
  environment:
  \<^item> \<open>urlopen_read\<close>: the outcome of lines 47 to 49, reading the feed URL with a timeout
    of 12 seconds: the body, or the exception raised;
  \<^item> \<open>fromstring\<close>: \<open>ET.fromstring\<close>, the XML parser, which raises on malformed input;
  \<^item> \<open>parse_date\<close>: lines 65 and 66, \<open>parsedate_to_datetime\<close> followed by the
    conversion to UTC and to ISO format with suffix Z; \<open>None\<close> when any of it raises;
  \<^item> \<open>unicode_lower\<close>: \<open>str.lower\<close> on a string with a non-ASCII character;
  \<^item> \<open>now_live\<close>, \<open>now_fallback\<close>, \<open>now_generated\<close>: the clock as read and formatted on
    lines 152, 100 and 161; each of these lines runs at most once in a request;
  \<^item> \<open>json_dumps_utf8\<close>: \<open>json.dumps(data, ensure_ascii=False).encode("utf-8")\<close>;
  \<^item> \<open>read_bytes\<close>: \<open>Path.read_bytes\<close> on a path below \<open>ROOT\<close>;
  \<^item> \<open>urlparse_path\<close>: \<open>urlparse(target).path\<close>;
  \<^item> \<open>io_ok\<close>: whether the n-th call that sends something to the client (counted
    from 0 within the request) returns normally; otherwise it raises \<open>OSError\<close>.
\<close>

record env =
  urlopen_read :: "error + bytes"
  fromstring :: "bytes \<Rightarrow> error + element"
  parse_date :: "pystr \<Rightarrow> pystr option"
  unicode_lower :: "pystr \<Rightarrow> pystr"
  now_live :: pystr
  now_fallback :: pystr
  now_generated :: pystr
  json_dumps_utf8 :: "pyval \<Rightarrow> error + bytes"
  read_bytes :: "pystr \<Rightarrow> error + bytes"
  urlparse_path :: "pystr \<Rightarrow> error + pystr"
  io_ok :: "nat \<Rightarrow> bool"

section \<open>The feed fetcher\<close>

definition MAX_ITEMS :: int where
  "MAX_ITEMS = 10"

text \<open>Line 61: the trimmed text of the item's \<open>pubDate\<close> child.\<close>

definition pub_date_raw :: "element \<Rightarrow> pystr" where
  "pub_date_raw item = strip (or_default (findtext item (str ''pubDate'')) [])"

text \<open>Lines 58 to 77: the body of the loop, which builds the dictionary of one item.\<close>

definition news_item :: "env \<Rightarrow> element \<Rightarrow> pydict" where
  "news_item E item =
     (let title = strip (or_default (findtext item (str ''title'')) []);
          link = strip (or_default (findtext item (str ''link'')) []);
          source = strip (or_default (findtext item (str ''source'')) (str ''Unknown source''));
          published_at =
            (case parse_date E (pub_date_raw item) of
               Some stamp \<Rightarrow> stamp
             | None \<Rightarrow> pub_date_raw item)
      in [(str ''title'', PStr title),
          (str ''url'', PStr link),
          (str ''source'', PStr source),
          (str ''published_at'', PStr published_at)])"

definition fetch_ai_news :: "env \<Rightarrow> int \<Rightarrow> error + pydict list" where
  "fetch_ai_news E limit =
     (case urlopen_read E of
        Inl e \<Rightarrow> Inl e
      | Inr raw_xml \<Rightarrow>
          (case fromstring E raw_xml of
             Inl e \<Rightarrow> Inl e
           | Inr root \<Rightarrow>
               (case find_child root (str ''channel'') of
                  None \<Rightarrow> Inr []
                | Some channel \<Rightarrow>
                    Inr (map (news_item E) (slice_to (findall channel (str ''item'')) limit)))))"

section \<open>The summary builder\<close>

text \<open>The set \<open>STOP_WORDS\<close> of lines 21 to 43; only membership in it is ever asked.\<close>

definition STOP_WORDS :: "pystr list" where
  "STOP_WORDS =
     map str [''ai'', ''artificial'', ''intelligence'', ''the'', ''a'', ''an'', ''and'',
       ''to'', ''of'', ''in'', ''for'', ''on'', ''with'', ''is'', ''are'', ''at'', ''from'',
       ''by'', ''as'', ''new'', ''says'']"

text \<open>
  \<open>s.lower()\<close>: on an ASCII string the letters A to Z are replaced by a to z; on any
  other string the Unicode case mapping of the environment is applied.
\<close>

definition ascii_lower :: "nat \<Rightarrow> nat" where
  "ascii_lower c = (if 65 \<le> c \<and> c \<le> 90 then c + 32 else c)"

definition lower :: "env \<Rightarrow> pystr \<Rightarrow> pystr" where
  "lower E s = (if list_all (\<lambda>c. c < 128) s then map ascii_lower s else unicode_lower E s)"

text \<open>
  The two character classes of the pattern on line 87: \<open>[A-Za-z]\<close> and
  \<open>[A-Za-z\-']\<close>.
\<close>

definition is_letter :: "nat \<Rightarrow> bool" where
  "is_letter c \<longleftrightarrow> (65 \<le> c \<and> c \<le> 90) \<or> (97 \<le> c \<and> c \<le> 122)"

definition is_word_char :: "nat \<Rightarrow> bool" where
  "is_word_char c \<longleftrightarrow> is_letter c \<or> c = 45 \<or> c = 39"

text \<open>
  \<open>re.findall\<close> with that pattern: the matches from left to right, without overlap.
  A match starts at a letter and takes the longest run of word characters after it,
  which must not be empty; a letter followed by no word character is skipped.
\<close>

function findall_words :: "pystr \<Rightarrow> pystr list" where
  "findall_words [] = []"
| "findall_words (c # cs) =
     (if is_letter c \<and> takeWhile is_word_char cs \<noteq> []
      then (c # takeWhile is_word_char cs) # findall_words (dropWhile is_word_char cs)
      else findall_words cs)"
  by pat_completeness auto
termination
  by (relation "measure length") (auto simp: length_dropWhile_le less_Suc_eq_le)

text \<open>
  \<open>Counter(words)\<close>: the words with their numbers of occurrences, in the order of first
  occurrence.
\<close>

fun bump :: "pystr \<Rightarrow> (pystr \<times> nat) list \<Rightarrow> (pystr \<times> nat) list" where
  "bump w [] = [(w, 1)]"
| "bump w ((k, n) # kvs) = (if k = w then (k, Suc n) # kvs else (k, n) # bump w kvs)"

definition Counter :: "pystr list \<Rightarrow> (pystr \<times> nat) list" where
  "Counter ws = foldl (\<lambda>c w. bump w c) [] ws"

text \<open>
  \<open>c.most_common(n)\<close>: the first n entries after sorting by count, largest first; the
  sort is stable, so entries with equal counts keep the order of first occurrence.
\<close>

definition most_common :: "nat \<Rightarrow> (pystr \<times> nat) list \<Rightarrow> (pystr \<times> nat) list" where
  "most_common n c = take n (sort_key (\<lambda>kv. - int (snd kv)) c)"

text \<open>The decimal digits of a number, as the f-string on line 93 prints \<open>count\<close>.\<close>

fun str_of_nat :: "nat \<Rightarrow> pystr" where
  "str_of_nat n = (if n < 10 then [48 + n] else str_of_nat (n div 10) @ [48 + n mod 10])"

declare str_of_nat.simps [simp del]

text \<open>
  Line 86 evaluates \<open>item["title"]\<close> for every item, which raises \<open>KeyError\<close> at the
  first item without that key; \<open>join\<close> then raises \<open>TypeError\<close> when a title is not a
  string.
\<close>

fun get_titles :: "pydict list \<Rightarrow> error + pyval list" where
  "get_titles [] = Inr []"
| "get_titles (d # ds) =
     (case getitem d (str ''title'') of
        Inl e \<Rightarrow> Inl e
      | Inr v \<Rightarrow> (case get_titles ds of Inl e \<Rightarrow> Inl e | Inr vs \<Rightarrow> Inr (v # vs)))"

fun all_strs :: "pyval list \<Rightarrow> error + pystr list" where
  "all_strs [] = Inr []"
| "all_strs (PStr s # vs) = (case all_strs vs of Inl e \<Rightarrow> Inl e | Inr ss \<Rightarrow> Inr (s # ss))"
| "all_strs (v # vs) = Inl TypeError"

text \<open>The sentence of line 84.\<close>

definition NO_NEWS_SENTENCE :: pystr where
  "NO_NEWS_SENTENCE =
      [1047, 1072, 32, 1087, 1086, 1089, 1083, 1077, 1076, 1085, 1080, 1077, 32,
       1089, 1091, 1090, 1082, 1080, 32, 1079, 1072, 1084, 1077, 1090, 1085, 1099,
       1093, 32, 65, 73, 45, 1085, 1086, 1074, 1086, 1089, 1090, 1077, 1081, 32,
       1085, 1077, 32, 1085, 1072, 1081, 1076, 1077, 1085, 1086, 46]"

text \<open>The placeholder for the topics on line 90.\<close>

definition TOPICS_PLACEHOLDER :: pystr where
  "TOPICS_PLACEHOLDER =
      [1084, 1086, 1076, 1077, 1083, 1080, 44, 32, 1087, 1088, 1086, 1076, 1091,
       1082, 1090, 1099, 32, 1080, 32, 1074, 1085, 1077, 1076, 1088, 1077, 1085,
       1080, 1077, 32, 65, 73]"

text \<open>
  The text of lines 93 to 95 before \<open>{count}\<close>, between \<open>{count}\<close> and \<open>{topics}\<close>,
  and after \<open>{topics}\<close>.
\<close>

definition SUMMARY_HEAD :: pystr where
  "SUMMARY_HEAD =
      [1047, 1072, 32, 1087, 1086, 1089, 1083, 1077, 1076, 1085, 1080, 1077, 32, 50,
       52, 32, 1095, 1072, 1089, 1072, 32, 1074, 32, 65, 73, 32, 1073, 1099, 1083,
       1086, 32, 1084, 1085, 1086, 1075, 1086, 32, 1072, 1082, 1090, 1080, 1074,
       1085, 1086, 1089, 1090, 1080, 58, 32, 1089, 1086, 1073, 1088, 1072, 1085,
       1086, 32]"

definition SUMMARY_MIDDLE :: pystr where
  "SUMMARY_MIDDLE =
      [32, 1082, 1083, 1102, 1095, 1077, 1074, 1099, 1093, 32, 1085, 1086, 1074,
       1086, 1089, 1090, 1077, 1081, 46, 32, 1063, 1072, 1097, 1077, 32, 1074, 1089,
       1077, 1075, 1086, 32, 1074, 1089, 1090, 1088, 1077, 1095, 1072, 1102, 1090,
       1089, 1103, 32, 1090, 1077, 1084, 1099, 58, 32]"

definition SUMMARY_TAIL :: pystr where
  "SUMMARY_TAIL =
      [46, 32, 1054, 1090, 1082, 1088, 1086, 1081, 1090, 1077, 32, 1082, 1072, 1088,
       1090, 1086, 1095, 1082, 1080, 32, 1085, 1080, 1078, 1077, 44, 32, 1095, 1090,
       1086, 1073, 1099, 32, 1073, 1099, 1089, 1090, 1088, 1086, 32, 1087, 1077,
       1088, 1077, 1081, 1090, 1080, 32, 1082, 32, 1087, 1077, 1088, 1074, 1086,
       1080, 1089, 1090, 1086, 1095, 1085, 1080, 1082, 1072, 1084, 46]"

text \<open>Lines 87 and 88: the list \<open>frequent\<close> computed from the joined titles.\<close>

definition frequent_words :: "env \<Rightarrow> pystr \<Rightarrow> pystr list" where
  "frequent_words E titles =
     (let words = findall_words (lower E titles)
      in take 4 (filter (\<lambda>w. w \<notin> set STOP_WORDS) (map fst (most_common 6 (Counter words)))))"

definition build_daily_summary :: "env \<Rightarrow> pydict list \<Rightarrow> error + pystr" where
  "build_daily_summary E news_items =
     (if news_items = [] then Inr NO_NEWS_SENTENCE
      else
        (case get_titles news_items of
           Inl e \<Rightarrow> Inl e
         | Inr vs \<Rightarrow>
             (case all_strs vs of
                Inl e \<Rightarrow> Inl e
              | Inr ts \<Rightarrow>
                  (let titles = join (str '' '') ts;
                       frequent = frequent_words E titles;
                       topics = (if frequent \<noteq> [] then join (str '', '') frequent
                                 else TOPICS_PLACEHOLDER);
                       count = length news_items
                   in Inr (SUMMARY_HEAD @ str_of_nat count @ SUMMARY_MIDDLE @ topics @
                           SUMMARY_TAIL)))))"

section \<open>The fallback provider\<close>

definition fallback_news :: "env \<Rightarrow> pydict list" where
  "fallback_news E =
     (let now = now_fallback E
      in [[(str ''title'', PStr (str ''Open-source AI models continue improving multimodal reasoning'')),
           (str ''url'', PStr (str ''https://news.google.com/'')),
           (str ''source'', PStr (str ''Fallback digest'')),
           (str ''published_at'', PStr now)],
          [(str ''title'', PStr (str ''Enterprise adoption of AI copilots expands across industries'')),
           (str ''url'', PStr (str ''https://news.google.com/'')),
           (str ''source'', PStr (str ''Fallback digest'')),
           (str ''published_at'', PStr now)],
          [(str ''title'', PStr (str ''Governments discuss new frameworks for safe AI deployment'')),
           (str ''url'', PStr (str ''https://news.google.com/'')),
           (str ''source'', PStr (str ''Fallback digest'')),
           (str ''published_at'', PStr now)]])"

section \<open>The request handler\<close>

text \<open>
  What the handler does to the client connection is the sequence of calls it makes on
  it. \<open>sent\<close> holds the calls that have returned normally, in order, and \<open>calls\<close> counts
  all calls made, which is the index of the next one in \<open>io_ok\<close>.
\<close>

datatype event =
    SendResponse nat
  | SendHeader pystr pystr
  | EndHeaders
  | Write bytes
  | SendError nat pystr

record conn =
  sent :: "event list"
  calls :: nat

definition conn0 :: conn where
  "conn0 = \<lparr>sent = [], calls = 0\<rparr>"

text \<open>
  A statement block acts on the connection and either completes (\<open>None\<close>) or raises an
  exception, which leaves the connection as it was at that moment.
\<close>

type_synonym action = "conn \<Rightarrow> error option \<times> conn"

definition raise :: "error \<Rightarrow> action" where
  "raise e c = (Some e, c)"

definition call :: "env \<Rightarrow> event \<Rightarrow> action" where
  "call E ev c =
     (if io_ok E (calls c)
      then (None, \<lparr>sent = sent c @ [ev], calls = Suc (calls c)\<rparr>)
      else (Some OSError, \<lparr>sent = sent c, calls = Suc (calls c)\<rparr>))"

text \<open>Calls made one after the other; the first one that raises ends the block.\<close>

fun run :: "env \<Rightarrow> event list \<Rightarrow> action" where
  "run E [] c = (None, c)"
| "run E (ev # evs) c =
     (case call E ev c of
        (None, c') \<Rightarrow> run E evs c'
      | (Some e, c') \<Rightarrow> (Some e, c'))"

text \<open>\<open>try: body except Exception: handler\<close>.\<close>

definition try_except :: "action \<Rightarrow> action \<Rightarrow> action" where
  "try_except body handler c =
     (case body c of
        (None, c') \<Rightarrow> (None, c')
      | (Some e, c') \<Rightarrow> handler c')"

text \<open>Lines 126 to 130 and 134 to 138: the calls that send one response.\<close>

definition response_calls :: "nat \<Rightarrow> pystr \<Rightarrow> bytes \<Rightarrow> event list" where
  "response_calls status content_type payload =
     [SendResponse status,
      SendHeader (str ''Content-Type'') content_type,
      SendHeader (str ''Content-Length'') (str_of_nat (length payload)),
      EndHeaders,
      Write payload]"

definition send_json :: "env \<Rightarrow> pyval \<Rightarrow> nat \<Rightarrow> action" where
  "send_json E data status =
     (case json_dumps_utf8 E data of
        Inl e \<Rightarrow> raise e
      | Inr payload \<Rightarrow>
          run E (response_calls status (str ''application/json; charset=utf-8'') payload))"

definition serve_file :: "env \<Rightarrow> pystr \<Rightarrow> pystr \<Rightarrow> action" where
  "serve_file E path content_type =
     (case read_bytes E path of
        Inl e \<Rightarrow> raise e
      | Inr content \<Rightarrow> run E (response_calls 200 content_type content))"

text \<open>The dictionary passed to \<open>_send_json\<close> on lines 151 to 155 and 160 to 164.\<close>

definition digest :: "pystr \<Rightarrow> pystr \<Rightarrow> pydict list \<Rightarrow> pyval" where
  "digest generated_at summary items =
     PDict [(str ''generated_at'', PStr generated_at),
            (str ''summary'', PStr summary),
            (str ''items'', PList (map PDict items))]"

text \<open>Lines 149 to 156, the body of the \<open>try\<close>.\<close>

definition news_try :: "env \<Rightarrow> action" where
  "news_try E =
     (case fetch_ai_news E MAX_ITEMS of
        Inl e \<Rightarrow> raise e
      | Inr items \<Rightarrow>
          (case build_daily_summary E items of
             Inl e \<Rightarrow> raise e
           | Inr summary \<Rightarrow> send_json E (digest (now_live E) summary items) 200))"

text \<open>Lines 158 to 165, the body of the \<open>except\<close>; first the sentence of line 162.\<close>

definition UNAVAILABLE_SUMMARY :: pystr where
  "UNAVAILABLE_SUMMARY =
      [1054, 1085, 1083, 1072, 1081, 1085, 45, 1080, 1089, 1090, 1086, 1095, 1085,
       1080, 1082, 32, 1085, 1086, 1074, 1086, 1089, 1090, 1077, 1081, 32, 1074,
       1088, 1077, 1084, 1077, 1085, 1085, 1086, 32, 1085, 1077, 1076, 1086, 1089,
       1090, 1091, 1087, 1077, 1085, 44, 32, 1087, 1086, 1082, 1072, 1079, 1072,
       1085, 32, 1088, 1077, 1079, 1077, 1088, 1074, 1085, 1099, 1081, 32, 1076,
       1072, 1081, 1076, 1078, 1077, 1089, 1090, 46]"

definition fallback_digest :: "env \<Rightarrow> pyval" where
  "fallback_digest E = digest (now_generated E) UNAVAILABLE_SUMMARY (fallback_news E)"

definition news_except :: "env \<Rightarrow> action" where
  "news_except E = send_json E (fallback_digest E) 200"

text \<open>
  \<open>do_GET\<close> for a request whose target (\<open>self.path\<close>) is given. File paths are relative
  to \<open>ROOT\<close>.
\<close>

definition do_GET :: "env \<Rightarrow> pystr \<Rightarrow> action" where
  "do_GET E target =
     (case urlparse_path E target of
        Inl e \<Rightarrow> raise e
      | Inr route \<Rightarrow>
          if route = str ''/''
          then serve_file E (str ''templates/index.html'') (str ''text/html; charset=utf-8'')
          else if route = str ''/static/styles.css''
          then serve_file E (str ''static/styles.css'') (str ''text/css; charset=utf-8'')
          else if route = str ''/api/news''
          then try_except (news_try E) (news_except E)
          else call E (SendError 404 (str ''Not found'')))"

section \<open>A concrete environment\<close>

text \<open>
  A feed with three items, used to evaluate the definitions: the first item is complete,
  the second has surrounding blanks in its title, a source of two blanks and a date
  that does not parse, the third has neither link nor date and a source element
  without text.
\<close>

definition example_items :: "element list" where
  "example_items =
     [Element (str ''item'') None
        [Element (str ''title'') (Some (str ''AI model beats benchmark'')) [],
         Element (str ''link'') (Some (str ''https://example.org/a'')) [],
         Element (str ''source'') (Some (str ''Example Times'')) [],
         Element (str ''pubDate'') (Some (str ''Mon, 02 Jan 2006 15:04:05 GMT'')) []],
      Element (str ''item'') None
        [Element (str ''title'') (Some (str '' New AI model released '')) [],
         Element (str ''link'') (Some (str ''https://example.org/b'')) [],
         Element (str ''source'') (Some (str ''  '')) [],
         Element (str ''pubDate'') (Some (str ''not a date'')) []],
      Element (str ''item'') None
        [Element (str ''title'') (Some (str ''Third'')) [],
         Element (str ''source'') None []]]"

definition example_channel :: element where
  "example_channel =
     Element (str ''channel'') None
       (Element (str ''title'') (Some (str ''AI news'')) [] # example_items)"

definition example_feed :: element where
  "example_feed = Element (str ''rss'') None [example_channel]"

text \<open>
  Two stand-ins for the JSON encoder. The first one encodes every digest and tells
  the fallback digest from a live one; the second one raises on every digest but the
  fallback one.
\<close>

definition example_dumps :: "pyval \<Rightarrow> error + bytes" where
  "example_dumps d =
     (case d of
        PDict (g # (k, PStr s) # r) \<Rightarrow>
          if s = UNAVAILABLE_SUMMARY then Inr (str ''{\"fallback\": true}'')
          else Inr (str ''{\"fallback\": false}'')
      | _ \<Rightarrow> Inl TypeError)"


text \<open>
  In \<open>example_env\<close> the feed is reachable and the client receives everything; the path
  of a request target is what precedes the first question mark.
\<close>

definition example_env :: env where
  "example_env =
     \<lparr>urlopen_read = Inr (str ''<rss/>''),
      fromstring = (\<lambda>raw. Inr example_feed),
      parse_date = (\<lambda>s. if s = str ''Mon, 02 Jan 2006 15:04:05 GMT''
                          then Some (str ''2006-01-02T15:04:05Z'') else None),
      unicode_lower = (\<lambda>s. s),
      now_live = str ''2024-05-01T10:00:00Z'',
      now_fallback = str ''2024-05-01T10:00:01Z'',
      now_generated = str ''2024-05-01T10:00:02Z'',
      json_dumps_utf8 = example_dumps,
      read_bytes = (\<lambda>p. Inl OSError),
      urlparse_path = (\<lambda>t. Inr (takeWhile (\<lambda>c. c \<noteq> 63) t)),
      io_ok = (\<lambda>n. True)\<rparr>"

text \<open>The feed cannot be reached.\<close>

definition unreachable_env :: env where
  "unreachable_env = example_env\<lparr>urlopen_read := Inl URLError\<rparr>"



text \<open>Only the call that writes the body of the live response (call 4) raises.\<close>

definition failed_write_env :: env where
  "failed_write_env = example_env\<lparr>io_ok := (\<lambda>k. k \<noteq> 4)\<rparr>"

section \<open>Properties of the feed fetcher\<close>

lemma find_child_None_iff:
  "find_child e name = None \<longleftrightarrow> name \<notin> tag ` set (children e)"
  by (auto simp: find_child_def find_None_iff)

text \<open>Once the feed has been read and parsed, only the tree decides the result.\<close>

lemma fetch_ai_news_parsed:
  assumes "urlopen_read E = Inr raw" and "fromstring E raw = Inr root"
  shows "fetch_ai_news E limit =
           (case find_child root (str ''channel'') of
              None \<Rightarrow> Inr []
            | Some channel \<Rightarrow>
                Inr (map (news_item E) (slice_to (findall channel (str ''item'')) limit)))"
  using assms by (simp add: fetch_ai_news_def)

lemma slice_to_default: "slice_to xs MAX_ITEMS = take 10 xs"
  by (simp add: slice_to_def MAX_ITEMS_def)

lemma getitem_news_item_source:
  "getitem (news_item E item) (str ''source'') =
     Inr (PStr (strip (or_default (findtext item (str ''source'')) (str ''Unknown source''))))"
  by (simp add: news_item_def getitem_def str_def Let_def)


lemma strip_Unknown_source: "strip (str ''Unknown source'') = str ''Unknown source''"
  by (simp add: str_def strip_def isspace_def)

lemma strip_all_space:
  assumes "list_all isspace t"
  shows "strip t = []"
proof -
  from assms have blank: "dropWhile isspace t = []"
    by (induction t) simp_all
  show ?thesis
    by (simp add: strip_def blank)
qed

lemma strip_trimmed:
  assumes "t \<noteq> []" and "\<not> isspace (hd t)" and "\<not> isspace (last t)"
  shows "strip t = t"
proof -
  from assms(1,2) have lead: "dropWhile isspace t = t"
    by (cases t) simp_all
  from assms(1,3) have "rev t \<noteq> []" and "\<not> isspace (hd (rev t))"
    by (simp_all add: hd_rev)
  then have trail: "dropWhile isspace (rev t) = rev t"
    by (cases "rev t") simp_all
  show ?thesis
    by (simp add: strip_def lead trail)
qed

text \<open>
  The raw publish date is the text of the \<open>pubDate\<close> child itself when that text
  neither starts nor ends with whitespace; otherwise it is the text without the
  surrounding whitespace.
\<close>

lemma pub_date_raw_text:
  assumes "find_child item (str ''pubDate'') = Some c" and "el_text c = Some t"
    and "t \<noteq> []" and "\<not> isspace (hd t)" and "\<not> isspace (last t)"
  shows "pub_date_raw item = t"
  using assms by (simp add: pub_date_raw_def findtext_def or_default_def strip_trimmed)

lemma example_fetch_ok:
  "urlopen_read example_env = Inr (str ''<rss/>'') \<and>
   fromstring example_env (str ''<rss/>'') = Inr example_feed \<and>
   find_child example_feed (str ''channel'') = Some example_channel"
  by (simp add: example_env_def example_feed_def example_channel_def find_child_def)

lemma example_findall: "findall example_channel (str ''item'') = example_items"
  by (simp add: example_channel_def example_items_def findall_def str_def)

lemma length_example_items: "length example_items = 3"
  by (simp add: example_items_def)

text \<open>
  C6. When the feed has been read and parsed and the root of the document has no child
  with the tag \<open>channel\<close>, \<open>fetch_ai_news\<close> returns the empty list and raises nothing,
  whatever the limit.
\<close>

theorem fetch_no_channel:
  assumes "urlopen_read E = Inr raw" and "fromstring E raw = Inr root"
    and "str ''channel'' \<notin> tag ` set (children root)"
  shows "fetch_ai_news E limit = Inr []"
  using assms(3)
  by (simp add: fetch_ai_news_parsed [OF assms(1,2)] find_child_None_iff [symmetric])

text \<open>The items of the example feed directly below a root called \<open>feed\<close>.\<close>

theorem fetch_no_channel_witness:
  "fetch_ai_news
     (example_env\<lparr>fromstring := (\<lambda>raw. Inr (Element (str ''feed'') None example_items))\<rparr>)
     MAX_ITEMS = Inr []"
  by (rule fetch_no_channel [where raw = "str ''<rss/>''"
        and root = "Element (str ''feed'') None example_items"])
     (simp_all add: example_env_def example_items_def str_def)

text \<open>
  C2. When the feed has been read and parsed and its root has a channel, the fetcher with
  the default limit \<open>MAX_ITEMS\<close> returns one dictionary for each of the first 10 \<open>item\<close>
  children of the channel, in document order: the i-th dictionary is built from the
  i-th item. With K items it returns \<open>min K 10\<close> dictionaries, so all K of them when
  K is at most 10 and the first 10 otherwise.
\<close>

theorem fetch_items_in_document_order:
  assumes "urlopen_read E = Inr raw" and "fromstring E raw = Inr root"
    and "find_child root (str ''channel'') = Some channel"
  shows "\<exists>items. fetch_ai_news E MAX_ITEMS = Inr items \<and>
           items = map (news_item E) (take 10 (findall channel (str ''item''))) \<and>
           length items = min (length (findall channel (str ''item''))) 10 \<and>
           (\<forall>i < length items. items ! i = news_item E (findall channel (str ''item'') ! i)) \<and>
           (length (findall channel (str ''item'')) \<le> 10 \<longrightarrow>
              items = map (news_item E) (findall channel (str ''item'')))"
  using assms(3) by (simp add: fetch_ai_news_parsed [OF assms(1,2)] slice_to_default)

theorem fetch_items_in_document_order_witness:
  "fetch_ai_news example_env MAX_ITEMS = Inr (map (news_item example_env) example_items) \<and>
   length example_items = 3"
  using fetch_items_in_document_order [of example_env "str ''<rss/>''" example_feed example_channel]
  by (simp add: example_fetch_ok example_findall) (simp add: example_items_def)



text \<open>
  C5. For an item without a \<open>source\<close> child, or whose first \<open>source\<close> child has no text
  or the empty text, the \<open>source\<close> field of the dictionary built from it is
  "Unknown source".
\<close>

theorem source_default:
  assumes "find_child item (str ''source'') = None \<or>
           (\<exists>c. find_child item (str ''source'') = Some c \<and>
                (el_text c = None \<or> el_text c = Some []))"
  shows "getitem (news_item E item) (str ''source'') = Inr (PStr (str ''Unknown source''))"
  using assms
  by (auto simp: getitem_news_item_source findtext_def or_default_def strip_Unknown_source)

theorem source_default_witness:
  "getitem (news_item example_env (example_items ! 2)) (str ''source'')
     = Inr (PStr (str ''Unknown source''))"
  by (rule source_default) (simp add: example_items_def find_child_def str_def)

text \<open>
  C10. For an item whose first \<open>source\<close> child has a text that is not empty and consists
  of whitespace only, the \<open>source\<close> field is the empty string and not "Unknown source":
  the default replaces a missing or empty text before the trimming, and the trimming
  then empties the text.
\<close>

theorem whitespace_source_empty:
  assumes "find_child item (str ''source'') = Some c" and "el_text c = Some t"
    and "t \<noteq> []" and "list_all isspace t"
  shows "getitem (news_item E item) (str ''source'') = Inr (PStr []) \<and>
         getitem (news_item E item) (str ''source'') \<noteq> Inr (PStr (str ''Unknown source''))"
proof -
  have "getitem (news_item E item) (str ''source'') = Inr (PStr [])"
    using assms
    by (simp add: getitem_news_item_source findtext_def or_default_def strip_all_space)
  moreover have "str ''Unknown source'' \<noteq> []"
    by (simp add: str_def)
  ultimately show ?thesis
    by simp
qed

theorem whitespace_source_empty_witness:
  "getitem (news_item example_env (example_items ! 1)) (str ''source'') = Inr (PStr []) \<and>
   getitem (news_item example_env (example_items ! 1)) (str ''source'')
     \<noteq> Inr (PStr (str ''Unknown source''))"
  by (rule whitespace_source_empty [where c = "Element (str ''source'') (Some (str ''  '')) []"
        and t = "str ''  ''"])
     (simp_all add: example_items_def find_child_def str_def isspace_def)

section \<open>Properties of the summary builder\<close>

lemma titles_are_strs:
  assumes "\<forall>d \<in> set news_items. \<exists>t. map_of d (str ''title'') = Some (PStr t)"
  shows "\<exists>vs ts. get_titles news_items = Inr vs \<and> all_strs vs = Inr ts"
  using assms
proof (induction news_items)
  case Nil
  then show ?case by simp
next
  case (Cons d ds)
  then obtain t where t: "map_of d (str ''title'') = Some (PStr t)"
    by auto
  from Cons obtain vs ts where "get_titles ds = Inr vs" and "all_strs vs = Inr ts"
    by auto
  with t show ?case
    by (simp add: getitem_def)
qed

text \<open>Of the environment, the summary reads the case mapping only.\<close>

lemma frequent_words_lower_only:
  "unicode_lower E' = unicode_lower E \<Longrightarrow> frequent_words E' = frequent_words E"
  by (rule ext) (simp add: frequent_words_def lower_def)

lemma build_daily_summary_lower_only:
  assumes "unicode_lower E' = unicode_lower E"
  shows "build_daily_summary E' news_items = build_daily_summary E news_items"
  unfolding build_daily_summary_def frequent_words_lower_only [OF assms]
  by (rule refl)

lemma news_item_title:
  "\<exists>t. map_of (news_item E item) (str ''title'') = Some (PStr t)"
  by (simp add: news_item_def Let_def)


lemma topics_joined:
  "join (str '', '') [str ''model'', str ''beats'', str ''benchmark'', str ''released'']
     = str ''model, beats, benchmark, released''"
  by (simp add: str_def)

lemma frequent_words_two_titles:
  "frequent_words E (join (str '' '') [str ''AI model beats benchmark'', str ''New AI model released''])
     = [str ''model'', str ''beats'', str ''benchmark'', str ''released'']"
  by (simp add: frequent_words_def str_def lower_def ascii_lower_def is_letter_def
      is_word_char_def Counter_def most_common_def STOP_WORDS_def)

text \<open>
  C3. For the titles "AI model beats benchmark" and "New AI model released" the list
  \<open>frequent\<close> is model, beats, benchmark, released: "ai" and "new" are stop words and
  are not in it, "model" is not a stop word and is in it. The summary of two items
  with these titles, whatever their other fields, names these four topics.
\<close>

theorem summary_topics_example:
  "frequent_words E (join (str '' '') [str ''AI model beats benchmark'', str ''New AI model released''])
     = [str ''model'', str ''beats'', str ''benchmark'', str ''released''] \<and>
   str ''ai'' \<in> set STOP_WORDS \<and> str ''new'' \<in> set STOP_WORDS \<and>
   str ''model'' \<notin> set STOP_WORDS \<and>
   str ''ai'' \<notin> set (frequent_words E
     (join (str '' '') [str ''AI model beats benchmark'', str ''New AI model released''])) \<and>
   str ''new'' \<notin> set (frequent_words E
     (join (str '' '') [str ''AI model beats benchmark'', str ''New AI model released''])) \<and>
   str ''model'' \<in> set (frequent_words E
     (join (str '' '') [str ''AI model beats benchmark'', str ''New AI model released''])) \<and>
   build_daily_summary E
     [[(str ''title'', PStr (str ''AI model beats benchmark'')), (str ''url'', u1),
       (str ''source'', s1), (str ''published_at'', p1)],
      [(str ''title'', PStr (str ''New AI model released'')), (str ''url'', u2),
       (str ''source'', s2), (str ''published_at'', p2)]]
     = Inr (SUMMARY_HEAD @ str ''2'' @ SUMMARY_MIDDLE @
            str ''model, beats, benchmark, released'' @ SUMMARY_TAIL)"
proof -
  let ?titles = "join (str '' '') [str ''AI model beats benchmark'', str ''New AI model released'']"
  have joined: "str ''AI model beats benchmark'' @ str '' '' @ str ''New AI model released'' = ?titles"
    by simp
  have count: "str_of_nat (Suc (Suc 0)) = str ''2''"
    by (simp add: str_of_nat.simps str_def)
  have stop: "str ''ai'' \<in> set STOP_WORDS \<and> str ''new'' \<in> set STOP_WORDS \<and>
      str ''model'' \<notin> set STOP_WORDS"
    by (simp add: STOP_WORDS_def str_def)
  have members: "str ''ai'' \<notin> set (frequent_words E ?titles) \<and>
      str ''new'' \<notin> set (frequent_words E ?titles) \<and>
      str ''model'' \<in> set (frequent_words E ?titles)"
    unfolding frequent_words_two_titles by (simp add: str_def)
  have "build_daily_summary E
     [[(str ''title'', PStr (str ''AI model beats benchmark'')), (str ''url'', u1),
       (str ''source'', s1), (str ''published_at'', p1)],
      [(str ''title'', PStr (str ''New AI model released'')), (str ''url'', u2),
       (str ''source'', s2), (str ''published_at'', p2)]]
     = Inr (SUMMARY_HEAD @ str ''2'' @ SUMMARY_MIDDLE @
            str ''model, beats, benchmark, released'' @ SUMMARY_TAIL)"
    unfolding build_daily_summary_def Let_def
    by (simp add: getitem_def joined frequent_words_two_titles count topics_joined
        del: join.simps)
  with stop members show ?thesis
    using frequent_words_two_titles by blast
qed

text \<open>
  C8. For a list of dictionaries that all have a string under the key \<open>title\<close>,
  \<open>build_daily_summary\<close> returns a string and raises nothing; for the empty list the
  string is the sentence of line 84. The function has no access to the client
  connection, and of the environment it uses nothing but the case mapping of
  \<open>str.lower\<close>: two environments with the same mapping give the same summary, whatever
  their network, clock and files.
\<close>

theorem build_daily_summary_never_fails:
  assumes "\<forall>d \<in> set news_items. \<exists>t. map_of d (str ''title'') = Some (PStr t)"
  shows "(\<exists>s. build_daily_summary E news_items = Inr s) \<and>
         build_daily_summary E [] = Inr NO_NEWS_SENTENCE \<and>
         (\<forall>E'. unicode_lower E' = unicode_lower E \<longrightarrow>
            build_daily_summary E' news_items = build_daily_summary E news_items)"
proof -
  from titles_are_strs [OF assms] obtain vs ts
    where "get_titles news_items = Inr vs" and "all_strs vs = Inr ts"
    by auto
  then have "\<exists>s. build_daily_summary E news_items = Inr s"
    by (simp add: build_daily_summary_def Let_def)
  moreover have "build_daily_summary E [] = Inr NO_NEWS_SENTENCE"
    by (simp add: build_daily_summary_def)
  ultimately show ?thesis
    using build_daily_summary_lower_only by blast
qed

theorem build_daily_summary_never_fails_witness:
  "(\<exists>s. build_daily_summary example_env (map (news_item example_env) example_items) = Inr s) \<and>
   build_daily_summary example_env [] = Inr NO_NEWS_SENTENCE \<and>
   build_daily_summary unreachable_env (map (news_item example_env) example_items) =
     build_daily_summary example_env (map (news_item example_env) example_items)"
proof -
  have titles: "\<forall>d \<in> set (map (news_item example_env) example_items).
      \<exists>t. map_of d (str ''title'') = Some (PStr t)"
    by (auto simp: news_item_title)
  have same: "unicode_lower unreachable_env = unicode_lower example_env"
    by (simp add: unreachable_env_def)
  from build_daily_summary_never_fails [OF titles, of example_env] same show ?thesis
    by blast
qed

text \<open>The summary of the example feed.\<close>

lemma example_titles:
  "get_titles (map (news_item example_env) example_items) =
     Inr [PStr (str ''AI model beats benchmark''), PStr (str ''New AI model released''),
          PStr (str ''Third'')]"
  by (simp add: example_items_def news_item_def Let_def getitem_def findtext_def find_child_def
      or_default_def strip_def isspace_def str_def)

lemma example_frequent:
  "frequent_words E (join (str '' '')
      [str ''AI model beats benchmark'', str ''New AI model released'', str ''Third''])
     = [str ''model'', str ''beats'', str ''benchmark'', str ''released'']"
  by (simp add: frequent_words_def str_def lower_def ascii_lower_def is_letter_def
      is_word_char_def Counter_def most_common_def STOP_WORDS_def)

lemma example_summary:
  "build_daily_summary E (map (news_item example_env) example_items) =
     Inr (SUMMARY_HEAD @ str ''3'' @ SUMMARY_MIDDLE @
          str ''model, beats, benchmark, released'' @ SUMMARY_TAIL)"
proof -
  have nonempty: "example_items \<noteq> []"
    by (simp add: example_items_def)
  have count: "str_of_nat (length example_items) = str ''3''"
    by (simp add: example_items_def str_of_nat.simps str_def)
  show ?thesis
    unfolding build_daily_summary_def Let_def example_titles
    by (simp add: nonempty count example_frequent topics_joined del: join.simps)
qed

section \<open>Properties of the request handler\<close>

lemma run_ok:
  "(\<forall>k. calls c \<le> k \<and> k < calls c + length evs \<longrightarrow> io_ok E k) \<Longrightarrow>
   run E evs c = (None, \<lparr>sent = sent c @ evs, calls = calls c + length evs\<rparr>)"
proof (induction evs arbitrary: c)
  case Nil
  then show ?case by simp
next
  case (Cons ev evs)
  have first: "io_ok E (calls c)"
    using Cons.prems by simp
  let ?c' = "\<lparr>sent = sent c @ [ev], calls = Suc (calls c)\<rparr>"
  have rest: "\<forall>k. calls ?c' \<le> k \<and> k < calls ?c' + length evs \<longrightarrow> io_ok E k"
    using Cons.prems by simp
  show ?case
    using Cons.IH [OF rest] first by (simp add: call_def)
qed

lemma length_response_calls: "length (response_calls status ct payload) = 5"
  by (simp add: response_calls_def)

lemma send_json_ok:
  assumes "json_dumps_utf8 E data = Inr payload"
    and "\<forall>k. calls c \<le> k \<and> k < calls c + 5 \<longrightarrow> io_ok E k"
  shows "send_json E data status c =
           (None, \<lparr>sent = sent c @ response_calls status (str ''application/json; charset=utf-8'') payload,
                   calls = calls c + 5\<rparr>)"
  using assms by (simp add: send_json_def run_ok length_response_calls)

lemma send_json_raises_before_sending:
  "json_dumps_utf8 E data = Inl e \<Longrightarrow> send_json E data status c = (Some e, c)"
  by (simp add: send_json_def raise_def)

lemma do_GET_news:
  "urlparse_path E target = Inr (str ''/api/news'') \<Longrightarrow>
   do_GET E target = try_except (news_try E) (news_except E)"
  by (simp add: do_GET_def str_def)

lemma do_GET_not_found:
  assumes "urlparse_path E target = Inr route"
    and "route \<noteq> str ''/''" and "route \<noteq> str ''/static/styles.css''"
    and "route \<noteq> str ''/api/news''"
  shows "do_GET E target = call E (SendError 404 (str ''Not found''))"
  using assms by (simp add: do_GET_def)

text \<open>The three ways through the body of the \<open>try\<close>.\<close>

lemma news_try_cases:
  obtains (fetch) e where "fetch_ai_news E MAX_ITEMS = Inl e" "news_try E = raise e"
  | (summary) items e where "fetch_ai_news E MAX_ITEMS = Inr items"
      "build_daily_summary E items = Inl e" "news_try E = raise e"
  | (send) items summary where "fetch_ai_news E MAX_ITEMS = Inr items"
      "build_daily_summary E items = Inr summary"
      "news_try E = send_json E (digest (now_live E) summary items) 200"
  by (cases "fetch_ai_news E MAX_ITEMS";
      cases "build_daily_summary E (projr (fetch_ai_news E MAX_ITEMS))")
     (auto simp: news_try_def)




lemma fallback_digest_explicit:
  "fallback_digest E =
     PDict [(str ''generated_at'', PStr (now_generated E)),
            (str ''summary'', PStr UNAVAILABLE_SUMMARY),
            (str ''items'', PList (map PDict (fallback_news E)))]"
  by (simp add: fallback_digest_def digest_def)



text \<open>When the client receives everything, the body raises before it sends anything.\<close>

lemma news_try_raises_unsent:
  assumes "\<forall>k. io_ok E k" and "news_try E conn0 = (Some e, c)"
  shows "c = conn0"
proof (cases rule: news_try_cases [of E])
  case (fetch e')
  with assms(2) show ?thesis by (simp add: raise_def)
next
  case (summary items e')
  with assms(2) show ?thesis by (simp add: raise_def)
next
  case (send items summary)
  show ?thesis
  proof (cases "json_dumps_utf8 E (digest (now_live E) summary items)")
    case (Inl e')
    with send(3) assms(2) show ?thesis
      by (simp add: send_json_raises_before_sending)
  next
    case (Inr payload)
    have "\<forall>k. calls conn0 \<le> k \<and> k < calls conn0 + 5 \<longrightarrow> io_ok E k"
      using assms(1) by simp
    from send_json_ok [OF Inr this] send(3) assms(2) show ?thesis
      by simp
  qed
qed

text \<open>
  C7. The handler reads the request target through \<open>urlparse(...).path\<close> only: two
  targets with the same path component, whatever their query strings, are handled
  alike. A request whose path is none of "/", "/static/styles.css" and "/api/news"
  is answered by \<open>send_error(404, "Not found")\<close> and by nothing else, when the client
  receives it.
\<close>

theorem routing_by_path_else_404:
  "(urlparse_path E target1 = urlparse_path E target2 \<longrightarrow> do_GET E target1 = do_GET E target2) \<and>
   (urlparse_path E target = Inr route \<and>
    route \<notin> {str ''/'', str ''/static/styles.css'', str ''/api/news''} \<and> io_ok E 0 \<longrightarrow>
      do_GET E target conn0 =
        (None, \<lparr>sent = [SendError 404 (str ''Not found'')], calls = 1\<rparr>))"
proof -
  have "do_GET E target1 = do_GET E target2"
    if "urlparse_path E target1 = urlparse_path E target2"
    using that by (simp add: do_GET_def)
  moreover have "do_GET E target conn0 =
      (None, \<lparr>sent = [SendError 404 (str ''Not found'')], calls = 1\<rparr>)"
    if "urlparse_path E target = Inr route"
      and "route \<notin> {str ''/'', str ''/static/styles.css'', str ''/api/news''}"
      and "io_ok E 0"
    using that by (simp add: do_GET_not_found [of E target route] call_def conn0_def)
  ultimately show ?thesis
    by blast
qed

theorem routing_by_path_else_404_witness:
  "do_GET example_env (str ''/nonexistent?page=2'') = do_GET example_env (str ''/nonexistent'') \<and>
   do_GET example_env (str ''/nonexistent?page=2'') conn0 =
     (None, \<lparr>sent = [SendError 404 (str ''Not found'')], calls = 1\<rparr>)"
proof -
  have same: "urlparse_path example_env (str ''/nonexistent?page=2'') =
      urlparse_path example_env (str ''/nonexistent'')"
    by (simp add: example_env_def str_def)
  have route: "urlparse_path example_env (str ''/nonexistent?page=2'') = Inr (str ''/nonexistent'')"
    by (simp add: example_env_def str_def)
  have other: "str ''/nonexistent'' \<notin> {str ''/'', str ''/static/styles.css'', str ''/api/news''}"
    by (simp add: str_def)
  have io: "io_ok example_env 0"
    by (simp add: example_env_def)
  from routing_by_path_else_404 [where E = example_env
      and ?target1.0 = "str ''/nonexistent?page=2''" and ?target2.0 = "str ''/nonexistent''"
      and target = "str ''/nonexistent?page=2''" and route = "str ''/nonexistent''"]
    same route other io
  show ?thesis
    by blast
qed


lemma example_dumps_fallback:
  "example_dumps
     (PDict [(str ''generated_at'', PStr g),
             (str ''summary'', PStr UNAVAILABLE_SUMMARY),
             (str ''items'', PList items)]) = Inr (str ''{\"fallback\": true}'')"
  by (simp add: example_dumps_def)


text \<open>The example feed is fetched alike whatever the encoder and the client do.\<close>

lemma example_fetch_any_client:
  assumes "urlopen_read E = urlopen_read example_env"
    and "fromstring E = fromstring example_env"
    and "parse_date E = parse_date example_env"
  shows "fetch_ai_news E MAX_ITEMS = Inr (map (news_item example_env) example_items)"
proof -
  have same: "news_item E = news_item example_env"
    by (rule ext) (simp add: news_item_def assms(3))
  have "fetch_ai_news E MAX_ITEMS = Inr (map (news_item E) (take 10 example_items))"
    using example_fetch_ok
    by (simp add: fetch_ai_news_def assms(1,2) slice_to_default example_findall)
  then show ?thesis
    by (simp add: same length_example_items)
qed

lemma example_summary_differs:
  "SUMMARY_HEAD @ str ''3'' @ SUMMARY_MIDDLE @
     str ''model, beats, benchmark, released'' @ SUMMARY_TAIL \<noteq> UNAVAILABLE_SUMMARY"
  by (simp add: SUMMARY_HEAD_def UNAVAILABLE_SUMMARY_def)


text \<open>
  When only the write of the live body fails, the \<open>except\<close> branch sends the whole
  fallback response after the headers of the live one: the client is sent two status
  lines and the length announced first is that of the live body.
\<close>

lemma failed_write_two_status_lines:
  "do_GET failed_write_env (str ''/api/news'') conn0 =
     (None,
      \<lparr>sent = [SendResponse 200,
               SendHeader (str ''Content-Type'') (str ''application/json; charset=utf-8''),
               SendHeader (str ''Content-Length'') (str ''19''),
               EndHeaders,
               SendResponse 200,
               SendHeader (str ''Content-Type'') (str ''application/json; charset=utf-8''),
               SendHeader (str ''Content-Length'') (str ''18''),
               EndHeaders,
               Write (str ''{\"fallback\": true}'')],
       calls = 10\<rparr>)"
proof -
  have route: "urlparse_path failed_write_env (str ''/api/news'') = Inr (str ''/api/news'')"
    by (simp add: failed_write_env_def example_env_def str_def)
  have fetched: "fetch_ai_news failed_write_env MAX_ITEMS
      = Inr (map (news_item example_env) example_items)"
    by (rule example_fetch_any_client) (simp_all add: failed_write_env_def)
  have payload: "json_dumps_utf8 failed_write_env
      (digest (now_live failed_write_env)
         (SUMMARY_HEAD @ str ''3'' @ SUMMARY_MIDDLE @
          str ''model, beats, benchmark, released'' @ SUMMARY_TAIL)
         (map (news_item example_env) example_items)) = Inr (str ''{\"fallback\": false}'')"
    using example_summary_differs
    by (simp add: failed_write_env_def example_env_def example_dumps_def digest_def)
  have fb: "json_dumps_utf8 failed_write_env (fallback_digest failed_write_env)
      = Inr (str ''{\"fallback\": true}'')"
    by (simp add: failed_write_env_def example_env_def fallback_digest_explicit
        example_dumps_fallback)
  have len: "str_of_nat (length (str ''{\"fallback\": false}'')) = str ''19''"
    "str_of_nat (length (str ''{\"fallback\": true}'')) = str ''18''"
    by (simp_all add: str_of_nat.simps str_def)
  have io: "io_ok failed_write_env k \<longleftrightarrow> k \<noteq> 4" for k
    by (simp add: failed_write_env_def)
  show ?thesis
    by (simp add: do_GET_news [OF route] try_except_def news_try_def fetched example_summary
        news_except_def send_json_def payload fb response_calls_def len call_def conn0_def io)
qed




end
